theory Spec2Isabelle
  imports Main "HOL-Library.Word"
begin

unbundle bit_operations_syntax

section \<open>Go standard library: \<open>strconv.ParseUint\<close>\<close>

text \<open>
  \<open>startExecutionSpan\<close> parses every identifier with \<open>strconv.ParseUint(s, 0, 64)\<close>.
  The function belongs to the Go standard library; the model below follows its
  implementation statement by statement. A Go string is a byte sequence, here a
  \<open>string\<close> (one \<open>char\<close> per byte). The Go function returns a value together with an
  error; on failure the value is \<open>0\<close> (syntax error) or the largest value of the bit
  size (range error), and the caller receives that value as well.
\<close>

datatype NumError = ErrSyntax | ErrRange | ErrBase | ErrBitSize

type_synonym uint64 = "64 word"

definition byte :: "char \<Rightarrow> nat" where
  "byte c = of_char c"

text \<open>\<open>lower(c) = c | ('x' - 'X')\<close>\<close>

definition lower :: "char \<Rightarrow> nat" where
  "lower c = byte c OR 32"

text \<open>The digit value of one byte in the main loop, \<open>None\<close> for a syntax error.\<close>

definition digitVal :: "char \<Rightarrow> nat option" where
  "digitVal c =
     (if 48 \<le> byte c \<and> byte c \<le> 57 then Some (byte c - 48)
      else if 97 \<le> lower c \<and> lower c \<le> 122 then Some (lower c - 97 + 10)
      else None)"

text \<open>
  The main loop. \<open>Inl\<close> is an early \<open>return\<close> with the pair the function returns
  there; \<open>Inr\<close> is the normal end of the loop with \<open>n\<close> and the \<open>underscores\<close> flag.
\<close>

fun digitsLoop ::
  "bool \<Rightarrow> nat \<Rightarrow> uint64 \<Rightarrow> uint64 \<Rightarrow> string \<Rightarrow> bool \<Rightarrow> uint64
     \<Rightarrow> (uint64 \<times> NumError) + (uint64 \<times> bool)" where
  "digitsLoop base0 base cutoff maxVal [] underscores n = Inr (n, underscores)"
| "digitsLoop base0 base cutoff maxVal (c # cs) underscores n =
     (if c = CHR ''_'' \<and> base0 then digitsLoop base0 base cutoff maxVal cs True n
      else case digitVal c of
        None \<Rightarrow> Inl (0, ErrSyntax)
      | Some d \<Rightarrow>
          if d \<ge> base then Inl (0, ErrSyntax)
          else if n \<ge> cutoff then Inl (maxVal, ErrRange)
          else
            let n' = n * of_nat base; n1 = n' + of_nat d in
            if n1 < n' \<or> n1 > maxVal then Inl (maxVal, ErrRange)
            else digitsLoop base0 base cutoff maxVal cs underscores n1)"

text \<open>
  \<open>underscoreOK\<close>: underscores must separate digits. The parameter \<open>i\<close> is the kind
  of the previous character: \<open>CHR ''0''\<close> digit, \<open>CHR ''_''\<close> underscore,
  \<open>CHR ''!''\<close> other, \<open>CHR ''^''\<close> start.
\<close>

fun underscoreScan :: "bool \<Rightarrow> char \<Rightarrow> string \<Rightarrow> bool" where
  "underscoreScan hex i [] = (i \<noteq> CHR ''_'')"
| "underscoreScan hex i (c # cs) =
     (if (48 \<le> byte c \<and> byte c \<le> 57) \<or> (hex \<and> 97 \<le> lower c \<and> lower c \<le> 102)
      then underscoreScan hex (CHR ''0'') cs
      else if c = CHR ''_''
      then (if i \<noteq> CHR ''0'' then False else underscoreScan hex (CHR ''_'') cs)
      else if i = CHR ''_'' then False
      else underscoreScan hex (CHR ''!'') cs)"

definition underscoreOK :: "string \<Rightarrow> bool" where
  "underscoreOK s0 =
     (let s = (if length s0 \<ge> 1 \<and> (hd s0 = CHR ''-'' \<or> hd s0 = CHR ''+'') then tl s0 else s0)
      in if length s \<ge> 2 \<and> s ! 0 = CHR ''0''
            \<and> (lower (s ! 1) = 98 \<or> lower (s ! 1) = 111 \<or> lower (s ! 1) = 120)
         then underscoreScan (lower (s ! 1) = 120) (CHR ''0'') (drop 2 s)
         else underscoreScan False (CHR ''^'') s)"

definition ParseUint :: "string \<Rightarrow> nat \<Rightarrow> nat \<Rightarrow> uint64 \<times> NumError option" where
  "ParseUint s0 base0 bitSize0 =
     (if s0 = [] then (0, Some ErrSyntax)
      else if \<not> (base0 = 0 \<or> (2 \<le> base0 \<and> base0 \<le> 36)) then (0, Some ErrBase)
      else
        let (base, s) =
              (if base0 \<noteq> 0 then (base0, s0)
               else if s0 ! 0 = CHR ''0'' then
                 (if length s0 \<ge> 3 \<and> lower (s0 ! 1) = 98 then (2, drop 2 s0)
                  else if length s0 \<ge> 3 \<and> lower (s0 ! 1) = 111 then (8, drop 2 s0)
                  else if length s0 \<ge> 3 \<and> lower (s0 ! 1) = 120 then (16, drop 2 s0)
                  else (8, drop 1 s0))
               else (10, s0))
        in if bitSize0 > 64 then (0, Some ErrBitSize)
        else
          let bitSize = (if bitSize0 = 0 then 64 else bitSize0);
              cutoff = (-1 :: uint64) div of_nat base + 1;
              maxVal = push_bit bitSize (1 :: uint64) - 1
          in case digitsLoop (base0 = 0) base cutoff maxVal s False 0 of
               Inl (v, e) \<Rightarrow> (v, Some e)
             | Inr (n, underscores) \<Rightarrow>
                 if underscores \<and> \<not> underscoreOK s0 then (0, Some ErrSyntax)
                 else (n, None))"

section \<open>Go standard library: the regular expression of \<open>convertRawPayload\<close>\<close>

text \<open>
  \<open>convertRawPayload\<close> searches the raw payload with the pattern
  \<^verbatim>\<open>{(?:|(.*))*}\<close> and \<open>FindString\<close>, which returns the leftmost match under
  leftmost-first (Perl) priorities, or the empty string when nothing matches.
  The pattern is an opening brace, a repetition whose body is either empty or a greedy
  run of characters other than newline, and a closing brace. Its matches at an opening
  brace are:
  \<^item> the two bytes \<open>{}\<close> when the closing brace follows at once (the empty
    alternative is preferred, and the Go compiler (1.17 and later) gives the exit of a
    repetition of a nullable body priority after an empty iteration);
  \<^item> otherwise the text up to the last closing brace before the next newline,
    because the run is greedy;
  \<^item> none when no closing brace occurs before the next newline; the search then
    goes on at the next opening brace.
\<close>

definition uptoLastBrace :: "string \<Rightarrow> string" where
  "uptoLastBrace line = rev (dropWhile (\<lambda>c. c \<noteq> CHR ''}'') (rev line))"

fun FindString :: "string \<Rightarrow> string" where
  "FindString [] = []"
| "FindString (c # cs) =
     (if c = CHR ''{'' then
        (let line = takeWhile (\<lambda>c. c \<noteq> CHR 0x0A) cs in
         if cs \<noteq> [] \<and> hd cs = CHR ''}'' then ''{}''
         else if CHR ''}'' \<in> set line then c # uptoLastBrace line
         else FindString cs)
      else FindString cs)"

section \<open>Go standard library: \<open>json.Unmarshal\<close> into \<open>invocationPayload\<close>\<close>

text \<open>
  \<open>json.Unmarshal\<close> first checks that the whole input is one JSON value (RFC 8259,
  with at most 10000 nested arrays and objects) and fails with a syntax error, leaving
  the target untouched, when it is not. Then it stores the value into the target. A
  value of the wrong JSON kind for its target is recorded as an
  \<open>UnmarshalTypeError\<close>, decoding continues, and the error is returned at the end,
  with everything else stored.
\<close>

subsection \<open>Tokens\<close>

datatype token =
  TLBrace | TRBrace | TLBrack | TRBrack | TColon | TComma
  | TString string | TNumber | TTrue | TFalse | TNull

datatype numState = NMinus | NZero | NInt | NDot | NFrac | NE | NESign | NExp

datatype lexMode =
  LTop
  | LStr string
  | LEsc string
  | LHex nat string
  | LNum numState
  | LLit string token

definition isSpace :: "char \<Rightarrow> bool" where
  "isSpace c = (c = CHR '' '' \<or> c = CHR 0x09 \<or> c = CHR 0x0D \<or> c = CHR 0x0A)"

definition isDigit :: "char \<Rightarrow> bool" where
  "isDigit c = (48 \<le> byte c \<and> byte c \<le> 57)"

definition isHex :: "char \<Rightarrow> bool" where
  "isHex c = (isDigit c \<or> (97 \<le> byte c \<and> byte c \<le> 102) \<or> (65 \<le> byte c \<and> byte c \<le> 70))"

definition isExp :: "char \<Rightarrow> bool" where
  "isExp c = (c = CHR ''e'' \<or> c = CHR ''E'')"

text \<open>One byte of a number; \<open>None\<close> when the byte does not continue the number.\<close>

fun numStep :: "numState \<Rightarrow> char \<Rightarrow> numState option" where
  "numStep NMinus c =
     (if c = CHR ''0'' then Some NZero else if isDigit c then Some NInt else None)"
| "numStep NZero c =
     (if c = CHR ''.'' then Some NDot else if isExp c then Some NE else None)"
| "numStep NInt c =
     (if isDigit c then Some NInt else if c = CHR ''.'' then Some NDot
      else if isExp c then Some NE else None)"
| "numStep NDot c = (if isDigit c then Some NFrac else None)"
| "numStep NFrac c =
     (if isDigit c then Some NFrac else if isExp c then Some NE else None)"
| "numStep NE c =
     (if c = CHR ''+'' \<or> c = CHR ''-'' then Some NESign
      else if isDigit c then Some NExp else None)"
| "numStep NESign c = (if isDigit c then Some NExp else None)"
| "numStep NExp c = (if isDigit c then Some NExp else None)"

fun numAccept :: "numState \<Rightarrow> bool" where
  "numAccept NZero = True"
| "numAccept NInt = True"
| "numAccept NFrac = True"
| "numAccept NExp = True"
| "numAccept _ = False"

definition consTok :: "token \<Rightarrow> token list option \<Rightarrow> token list option" where
  "consTok t r = map_option (\<lambda>ts. t # ts) r"

text \<open>
  The bytes a JSON value may be followed by: white space, a comma or a closing bracket.
  A number ends at the first byte that does not continue it, and that byte must be one of
  these.
\<close>

definition afterValue :: "char \<Rightarrow> token list" where
  "afterValue c =
     (if c = CHR '','' then [TComma] else if c = CHR '']'' then [TRBrack]
      else if c = CHR ''}'' then [TRBrace] else [])"

definition endsValue :: "char \<Rightarrow> bool" where
  "endsValue c = (isSpace c \<or> c = CHR '','' \<or> c = CHR '']'' \<or> c = CHR ''}'')"

text \<open>
  The scanner, byte by byte. A string token keeps the bytes between the quotes as they
  are written (escapes included), accumulated in reverse.
\<close>

fun lex :: "lexMode \<Rightarrow> string \<Rightarrow> token list option" where
  "lex m [] =
     (case m of
        LTop \<Rightarrow> Some []
      | LNum ns \<Rightarrow> if numAccept ns then Some [TNumber] else None
      | _ \<Rightarrow> None)"
| "lex m (c # cs) =
     (case m of
        LTop \<Rightarrow>
          if isSpace c then lex LTop cs
          else if c = CHR ''{'' then consTok TLBrace (lex LTop cs)
          else if c = CHR ''}'' then consTok TRBrace (lex LTop cs)
          else if c = CHR ''['' then consTok TLBrack (lex LTop cs)
          else if c = CHR '']'' then consTok TRBrack (lex LTop cs)
          else if c = CHR '':'' then consTok TColon (lex LTop cs)
          else if c = CHR '','' then consTok TComma (lex LTop cs)
          else if c = CHR 0x22 then lex (LStr []) cs
          else if c = CHR ''-'' then lex (LNum NMinus) cs
          else if c = CHR ''0'' then lex (LNum NZero) cs
          else if isDigit c then lex (LNum NInt) cs
          else if c = CHR ''t'' then lex (LLit ''rue'' TTrue) cs
          else if c = CHR ''f'' then lex (LLit ''alse'' TFalse) cs
          else if c = CHR ''n'' then lex (LLit ''ull'' TNull) cs
          else None
      | LStr acc \<Rightarrow>
          if c = CHR 0x22 then consTok (TString (rev acc)) (lex LTop cs)
          else if c = CHR 0x5C then lex (LEsc (c # acc)) cs
          else if byte c < 32 then None
          else lex (LStr (c # acc)) cs
      | LEsc acc \<Rightarrow>
          if c \<in> set ''bfnrt'' \<or> c = CHR 0x5C \<or> c = CHR ''/'' \<or> c = CHR 0x22
          then lex (LStr (c # acc)) cs
          else if c = CHR ''u'' then lex (LHex 4 (c # acc)) cs
          else None
      | LHex k acc \<Rightarrow>
          if isHex c then (if k \<le> 1 then lex (LStr (c # acc)) cs else lex (LHex (k - 1) (c # acc)) cs)
          else None
      | LNum ns \<Rightarrow>
          (case numStep ns c of
             Some ns' \<Rightarrow> lex (LNum ns') cs
           | None \<Rightarrow>
               if numAccept ns \<and> endsValue c
               then map_option (\<lambda>ts. TNumber # afterValue c @ ts) (lex LTop cs)
               else None)
      | LLit rest t \<Rightarrow>
          (case rest of
             [] \<Rightarrow> None
           | r # rs \<Rightarrow>
               if c \<noteq> r then None
               else if rs = [] then consTok t (lex LTop cs)
               else lex (LLit rs t) cs))"

subsection \<open>Values\<close>

datatype json =
  JNull | JBool bool | JNumber | JString string
  | JArray "json list" | JObject "(string \<times> json) list"

text \<open>
  The parser keeps the open arrays and objects on a stack, innermost first, each with
  its members so far in reverse and, for an object, the key waiting for its value.
\<close>

datatype frame = FArr "json list" | FObj "(string \<times> json) list" "string option"

datatype pState = PValue | PValueOrEnd | PKeyOrEnd | PKey | PColon | PAfter

definition maxNestingDepth :: nat where
  "maxNestingDepth = 10000"

text \<open>A finished value goes to the innermost open container, or is the result.\<close>

fun complete :: "json \<Rightarrow> frame list \<Rightarrow> json option \<Rightarrow> (frame list \<times> json option) option" where
  "complete v [] res = Some ([], Some v)"
| "complete v (FArr es # st) res = Some (FArr (v # es) # st, res)"
| "complete v (FObj kvs (Some k) # st) res = Some (FObj ((k, v) # kvs) None # st, res)"
| "complete v (FObj kvs None # st) res = None"

definition scalar :: "token \<Rightarrow> json option" where
  "scalar t =
     (case t of
        TString s \<Rightarrow> Some (JString s)
      | TNumber \<Rightarrow> Some JNumber
      | TTrue \<Rightarrow> Some (JBool True)
      | TFalse \<Rightarrow> Some (JBool False)
      | TNull \<Rightarrow> Some JNull
      | _ \<Rightarrow> None)"

fun parse :: "pState \<Rightarrow> frame list \<Rightarrow> json option \<Rightarrow> token list \<Rightarrow> json option" where
  "parse p st res [] = (if p = PAfter \<and> st = [] then res else None)"
| "parse p st res (t # ts) =
     (if p = PValue \<or> p = PValueOrEnd then
        (if t = TLBrack then
           (if length st < maxNestingDepth then parse PValueOrEnd (FArr [] # st) res ts else None)
         else if t = TLBrace then
           (if length st < maxNestingDepth then parse PKeyOrEnd (FObj [] None # st) res ts else None)
         else if t = TRBrack \<and> p = PValueOrEnd then
           (case st of
              FArr es # st' \<Rightarrow>
                (case complete (JArray (rev es)) st' res of
                   Some (st'', res') \<Rightarrow> parse PAfter st'' res' ts
                 | None \<Rightarrow> None)
            | _ \<Rightarrow> None)
         else
           (case scalar t of
              Some v \<Rightarrow>
                (case complete v st res of
                   Some (st', res') \<Rightarrow> parse PAfter st' res' ts
                 | None \<Rightarrow> None)
            | None \<Rightarrow> None))
      else if p = PKeyOrEnd \<or> p = PKey then
        (case (t, st) of
           (TString k, FObj kvs None # st') \<Rightarrow> parse PColon (FObj kvs (Some k) # st') res ts
         | (TRBrace, FObj kvs None # st') \<Rightarrow>
             (if p = PKeyOrEnd then
                (case complete (JObject (rev kvs)) st' res of
                   Some (st'', res') \<Rightarrow> parse PAfter st'' res' ts
                 | None \<Rightarrow> None)
              else None)
         | _ \<Rightarrow> None)
      else if p = PColon then
        (if t = TColon then parse PValue st res ts else None)
      else
        (case (t, st) of
           (TComma, FArr es # st') \<Rightarrow> parse PValue st res ts
         | (TRBrack, FArr es # st') \<Rightarrow>
             (case complete (JArray (rev es)) st' res of
                Some (st'', res') \<Rightarrow> parse PAfter st'' res' ts
              | None \<Rightarrow> None)
         | (TComma, FObj kvs None # st') \<Rightarrow> parse PKey st res ts
         | (TRBrace, FObj kvs None # st') \<Rightarrow>
             (case complete (JObject (rev kvs)) st' res of
                Some (st'', res') \<Rightarrow> parse PAfter st'' res' ts
              | None \<Rightarrow> None)
         | _ \<Rightarrow> None))"

definition parseJSON :: "string \<Rightarrow> json option" where
  "parseJSON data = (case lex LTop data of None \<Rightarrow> None | Some ts \<Rightarrow> parse PValue [] None ts)"

subsection \<open>String literals\<close>

text \<open>
  \<open>unquote\<close> turns the bytes between the quotes into the string they denote: escapes
  are replaced, \<^verbatim>\<open>\uXXXX\<close> becomes the UTF-8 encoding of its code point (a
  surrogate pair becomes one code point, a lone surrogate U+FFFD), and a byte that does
  not start a well-formed UTF-8 sequence becomes U+FFFD.
\<close>

definition hexVal :: "char \<Rightarrow> nat" where
  "hexVal c =
     (if isDigit c then byte c - 48
      else if 97 \<le> byte c \<and> byte c \<le> 102 then byte c - 97 + 10
      else byte c - 65 + 10)"

text \<open>The value of four hexadecimal digits at the head of the text.\<close>

definition hex4 :: "string \<Rightarrow> nat option" where
  "hex4 s =
     (if length s \<ge> 4 \<and> (\<forall>c \<in> set (take 4 s). isHex c)
      then Some (foldl (\<lambda>n c. n * 16 + hexVal c) 0 (take 4 s))
      else None)"

text \<open>\<open>getu4\<close>: the code unit of a \<^verbatim>\<open>\uXXXX\<close> at the head of the text.\<close>

definition getu4 :: "string \<Rightarrow> nat option" where
  "getu4 s =
     (if length s \<ge> 6 \<and> s ! 0 = CHR 0x5C \<and> s ! 1 = CHR ''u'' then hex4 (drop 2 s) else None)"

definition RuneError :: nat where
  "RuneError = 0xFFFD"

definition EncodeRune :: "nat \<Rightarrow> string" where
  "EncodeRune r0 =
     (let r = (if r0 > 0x10FFFF \<or> (0xD800 \<le> r0 \<and> r0 < 0xE000) then RuneError else r0) in
      if r < 0x80 then [char_of r]
      else if r < 0x800 then [char_of (0xC0 + r div 64), char_of (0x80 + r mod 64)]
      else if r < 0x10000 then
        [char_of (0xE0 + r div 4096), char_of (0x80 + r div 64 mod 64), char_of (0x80 + r mod 64)]
      else
        [char_of (0xF0 + r div 262144), char_of (0x80 + r div 4096 mod 64),
         char_of (0x80 + r div 64 mod 64), char_of (0x80 + r mod 64)])"

definition cont :: "nat \<Rightarrow> nat \<Rightarrow> string \<Rightarrow> nat \<Rightarrow> bool" where
  "cont lo hi s i = (i < length s \<and> lo \<le> byte (s ! i) \<and> byte (s ! i) \<le> hi)"

text \<open>
  The length of the well-formed UTF-8 sequence at the head of the text, \<open>None\<close> when
  \<open>utf8.DecodeRune\<close> answers \<open>(RuneError, 1)\<close>.
\<close>

definition runeSize :: "string \<Rightarrow> nat option" where
  "runeSize s =
     (case s of
        [] \<Rightarrow> None
      | c # _ \<Rightarrow>
          let b = byte c in
          if b < 0x80 then Some 1
          else if 0xC2 \<le> b \<and> b \<le> 0xDF then (if cont 0x80 0xBF s 1 then Some 2 else None)
          else if 0xE0 \<le> b \<and> b \<le> 0xEF then
            (if cont (if b = 0xE0 then 0xA0 else 0x80) (if b = 0xED then 0x9F else 0xBF) s 1
                \<and> cont 0x80 0xBF s 2
             then Some 3 else None)
          else if 0xF0 \<le> b \<and> b \<le> 0xF4 then
            (if cont (if b = 0xF0 then 0x90 else 0x80) (if b = 0xF4 then 0x8F else 0xBF) s 1
                \<and> cont 0x80 0xBF s 2 \<and> cont 0x80 0xBF s 3
             then Some 4 else None)
          else None)"

definition simpleEscape :: "char \<Rightarrow> char" where
  "simpleEscape e =
     (if e = CHR ''b'' then CHR 0x08 else if e = CHR ''f'' then CHR 0x0C
      else if e = CHR ''n'' then CHR 0x0A else if e = CHR ''r'' then CHR 0x0D
      else if e = CHR ''t'' then CHR 0x09 else e)"

text \<open>
  The scanner has accepted the literal before \<open>unquote\<close> sees it, so a backslash is
  always followed by a complete escape; the two branches that answer the empty string
  for an incomplete one are never taken on scanned input.
\<close>

fun unquote :: "string \<Rightarrow> string" where
  "unquote [] = []"
| "unquote (c # cs) =
     (if c = CHR 0x5C then
        (case cs of
           [] \<Rightarrow> []
         | e # es \<Rightarrow>
             if e = CHR ''u'' then
               (case hex4 es of
                  None \<Rightarrow> []
                | Some rr \<Rightarrow>
                    let rest = drop 4 es in
                    if 0xD800 \<le> rr \<and> rr < 0xE000 then
                      (case getu4 rest of
                         Some rr1 \<Rightarrow>
                           if rr < 0xDC00 \<and> 0xDC00 \<le> rr1 \<and> rr1 < 0xE000
                           then EncodeRune ((rr - 0xD800) * 1024 + (rr1 - 0xDC00) + 0x10000)
                                  @ unquote (drop 6 rest)
                           else EncodeRune RuneError @ unquote rest
                       | None \<Rightarrow> EncodeRune RuneError @ unquote rest)
                    else EncodeRune rr @ unquote rest)
             else simpleEscape e # unquote es)
      else if byte c < 0x80 then c # unquote cs
      else
        (case runeSize (c # cs) of
           Some n \<Rightarrow> c # take (n - 1) cs @ unquote (drop (n - 1) cs)
         | None \<Rightarrow> EncodeRune RuneError @ unquote cs))"

subsection \<open>Storing the value\<close>

text \<open>
  The target is \<^verbatim>\<open>struct { Headers map[string]string `json:"headers"` }\<close>.
  A Go map is \<open>nil\<close> or a table; reading a missing key, also of the \<open>nil\<close> map, gives
  the empty string.
\<close>

record invocationPayload =
  Headers :: "(string \<rightharpoonup> string) option"

definition lookup :: "(string \<rightharpoonup> string) option \<Rightarrow> string \<Rightarrow> string" where
  "lookup h k = (case h of None \<Rightarrow> [] | Some m \<Rightarrow> (case m k of None \<Rightarrow> [] | Some v \<Rightarrow> v))"

text \<open>
  An object key selects the field when it equals the name \<open>headers\<close> or matches it
  under Unicode simple case folding: each letter in either case, and for the letter
  \<open>s\<close> also U+017F (bytes \<open>C5 BF\<close>), for \<open>k\<close> also U+212A (bytes \<open>E2 84 AA\<close>).
\<close>

fun equalFold :: "string \<Rightarrow> string \<Rightarrow> bool" where
  "equalFold [] t = (t = [])"
| "equalFold (sb # s) [] = False"
| "equalFold (sb # s) (tb # t) =
     (if byte tb < 0x80 then
        (if sb = tb then equalFold s t
         else if 65 \<le> byte sb AND 0xDF \<and> byte sb AND 0xDF \<le> 90
                 \<and> byte sb AND 0xDF = byte tb AND 0xDF
         then equalFold s t
         else False)
      else if (sb = CHR ''s'' \<or> sb = CHR ''S'') \<and> take 2 (tb # t) = [CHR 0xC5, CHR 0xBF]
      then equalFold s (drop 1 t)
      else if (sb = CHR ''k'' \<or> sb = CHR ''K'') \<and> take 3 (tb # t) = [CHR 0xE2, CHR 0x84, CHR 0xAA]
      then equalFold s (drop 2 t)
      else False)"

text \<open>
  A map entry of type \<open>string\<close>: a string literal is stored unquoted; \<open>null\<close> and
  every value of another kind (a type error) leave the zero value, the empty string.
\<close>

definition stringElem :: "json \<Rightarrow> string" where
  "stringElem v = (case v of JString s \<Rightarrow> unquote s | _ \<Rightarrow> [])"

text \<open>
  The field of type \<open>map[string]string\<close>: \<open>null\<close> sets it to \<open>nil\<close>; an object
  allocates the map when it is \<open>nil\<close> and stores one entry per member, in order;
  every other value is a type error and leaves the field as it is.
\<close>

definition storeHeaders ::
  "json \<Rightarrow> (string \<rightharpoonup> string) option \<Rightarrow> (string \<rightharpoonup> string) option" where
  "storeHeaders v h =
     (case v of
        JNull \<Rightarrow> None
      | JObject kvs \<Rightarrow>
          Some (foldl (\<lambda>m (k, e). m(unquote k \<mapsto> stringElem e))
                  (case h of None \<Rightarrow> Map.empty | Some m \<Rightarrow> m) kvs)
      | _ \<Rightarrow> h)"

definition storePayload :: "json \<Rightarrow> invocationPayload \<Rightarrow> invocationPayload" where
  "storePayload v p =
     (case v of
        JObject kvs \<Rightarrow>
          foldl (\<lambda>p (k, e).
                   if equalFold ''headers'' (unquote k)
                   then p\<lparr>Headers := storeHeaders e (Headers p)\<rparr> else p) p kvs
      | _ \<Rightarrow> p)"

text \<open>Whether storing the value meets a value of the wrong kind.\<close>

definition elemMismatch :: "json \<Rightarrow> bool" where
  "elemMismatch e = (case e of JString s \<Rightarrow> False | JNull \<Rightarrow> False | _ \<Rightarrow> True)"

definition headersMismatch :: "json \<Rightarrow> bool" where
  "headersMismatch v =
     (case v of
        JNull \<Rightarrow> False
      | JObject kvs \<Rightarrow> list_ex (\<lambda>(k, e). elemMismatch e) kvs
      | _ \<Rightarrow> True)"

definition payloadMismatch :: "json \<Rightarrow> bool" where
  "payloadMismatch v =
     (case v of
        JNull \<Rightarrow> False
      | JObject kvs \<Rightarrow>
          list_ex (\<lambda>(k, e). equalFold ''headers'' (unquote k) \<and> headersMismatch e) kvs
      | _ \<Rightarrow> True)"

datatype jsonError = SyntaxError | UnmarshalTypeError

definition Unmarshal :: "string \<Rightarrow> invocationPayload \<Rightarrow> invocationPayload \<times> jsonError option" where
  "Unmarshal data p =
     (case parseJSON data of
        None \<Rightarrow> (p, Some SyntaxError)
      | Some v \<Rightarrow>
          (storePayload v p, if payloadMismatch v then Some UnmarshalTypeError else None))"

section \<open>The program: \<open>trace.go\<close>\<close>

subsection \<open>\<open>convertRawPayload\<close>\<close>

text \<open>
  The error of \<open>json.Unmarshal\<close> is only logged; the payload comes back as far as it
  was filled.
\<close>

definition convertRawPayload :: "string \<Rightarrow> invocationPayload" where
  "convertRawPayload rawPayload =
     (let subString = FindString rawPayload;
          payload = \<lparr>Headers = None\<rparr>;
          (payload', err) = Unmarshal subString payload
      in payload')"

subsection \<open>Data\<close>

text \<open>
  A \<open>time.Time\<close> is an instant; the program reads it only through \<open>UnixNano()\<close>.
  The model takes the instant as its number of nanoseconds since the Unix epoch, an
  unbounded integer (Go's \<open>Time\<close> reaches far beyond the years 1678 to 2262 that fit
  64 bits), and \<open>UnixNano\<close> computes seconds times \<open>10^9\<close> plus nanoseconds in
  \<open>int64\<close>, that is, the instant modulo \<open>2^64\<close>.
\<close>

type_synonym Time = int
type_synonym int64 = "64 word"
type_synonym int32 = "32 word"

definition UnixNano :: "Time \<Rightarrow> int64" where
  "UnixNano t = word_of_int t"

record executionStartInfo =
  startTime :: Time
  traceID :: uint64
  spanID :: uint64
  parentID :: uint64
  samplingPriority :: "uint64 option"
  requestPayload :: string

text \<open>
  The types below are declared in other files of the repository; the records hold the
  fields this program reads and writes, under the names it uses. The fields
  \<open>TraceID\<close>, \<open>SpanID\<close> and \<open>ParentID\<close> carry a suffix, because the package
  functions \<open>TraceID()\<close> and \<open>SpanID()\<close> keep the plain names.
\<close>

record LambdaInvokeEventHeaders =
  TraceID_hdr :: string
  ParentID_hdr :: string

record pb_Span =
  Service :: string
  Name :: string
  Resource :: string
  Type :: string
  TraceID_pb :: uint64
  SpanID_pb :: uint64
  ParentID_pb :: uint64
  Start :: int64
  Duration :: int64
  Error :: int32
  Meta :: "string \<rightharpoonup> string"

record pb_TraceChunk =
  Priority :: int32
  Spans :: "pb_Span list"

record pb_TracerPayload =
  Chunks :: "pb_TraceChunk list"

text \<open>
  \<open>api.Payload\<close> also has a \<open>Source\<close>, a fresh statistics record that does not
  depend on the invocation; it is left out.
\<close>

record api_Payload =
  TracerPayload :: pb_TracerPayload

record InferredSpan =
  Span :: pb_Span
  SamplingPriority :: "uint64 option"

text \<open>
  The names of the three headers are constants of the package, declared outside the
  given files; the program is modelled for any three names.
\<close>

record headerKeys =
  TraceIDHeader :: string
  ParentIDHeader :: string
  SamplingPriorityHeader :: string

text \<open>
  Modelled from the spec: the header-name constants, missing from the given files. The
  spec's scenario names the trace-ID header \<open>x-datadog-trace-id\<close>; the parent-ID and
  sampling-priority headers are taken with the same prefix. Only concrete examples use
  these names.
\<close>

definition datadogHeaders :: headerKeys where
  "datadogHeaders =
     \<lparr>TraceIDHeader = ''x-datadog-trace-id'',
      ParentIDHeader = ''x-datadog-parent-id'',
      SamplingPriorityHeader = ''x-datadog-sampling-priority''\<rparr>"

text \<open>
  What the two functions read from the process outside the package: the environment
  (\<open>os.Getenv\<close>, the empty string for an unset variable) and the agent
  configuration (\<open>config.Datadog.GetBool\<close>).
\<close>

record hostEnv =
  Getenv :: "string \<Rightarrow> string"
  GetBool :: "string \<Rightarrow> bool"

definition functionNameEnvVar :: string where
  "functionNameEnvVar = ''AWS_LAMBDA_FUNCTION_NAME''"

text \<open>
  The package-level variables, and the two outputs of the package as the lists of calls
  made so far: \<open>processed\<close> holds the payloads handed to the \<open>processTrace\<close>
  callback, \<open>errorsMetrics\<close> the calls of \<open>SendErrorsEnhancedMetric\<close> (tags and
  timestamp). \<open>Random\<close> is the sequence of values the generator \<open>rand.Random\<close> is
  going to return, in order; the generator is not among the given files, and any
  sequence is allowed.
\<close>

record state =
  currentExecutionInfo :: executionStartInfo
  InferredSpansEnabled :: bool
  inferredSpan :: InferredSpan
  Random :: "nat \<Rightarrow> uint64"
  processed :: "api_Payload list"
  errorsMetrics :: "(string list \<times> Time) list"

definition Uint64 :: "state \<Rightarrow> uint64 \<times> state" where
  "Uint64 s = (Random s 0, s\<lparr>Random := (\<lambda>n. Random s (Suc n))\<rparr>)"

definition processTrace :: "api_Payload \<Rightarrow> state \<Rightarrow> state" where
  "processTrace p s = s\<lparr>processed := processed s @ [p]\<rparr>"

text \<open>Assignments to fields of the two package-level structures.\<close>

definition info :: "(executionStartInfo \<Rightarrow> executionStartInfo) \<Rightarrow> state \<Rightarrow> state" where
  "info f s = s\<lparr>currentExecutionInfo := f (currentExecutionInfo s)\<rparr>"

definition inferred :: "(InferredSpan \<Rightarrow> InferredSpan) \<Rightarrow> state \<Rightarrow> state" where
  "inferred f s = s\<lparr>inferredSpan := f (inferredSpan s)\<rparr>"

subsection \<open>\<open>startExecutionSpan\<close>\<close>

text \<open>The branch for headers found in the payload.\<close>

definition applyPayloadHeaders :: "headerKeys \<Rightarrow> invocationPayload \<Rightarrow> state \<Rightarrow> state" where
  "applyPayloadHeaders K payload s0 =
     (let (traceID', e1) = ParseUint (lookup (Headers payload) (TraceIDHeader K)) 0 64;
          (parentID', e2) = ParseUint (lookup (Headers payload) (ParentIDHeader K)) 0 64;
          (samplingPriority', e3) =
             ParseUint (lookup (Headers payload) (SamplingPriorityHeader K)) 0 64;
          s1 = (if e1 = None then
                  (let s = info (\<lambda>i. i\<lparr>traceID := traceID'\<rparr>) s0 in
                   if InferredSpansEnabled s
                   then inferred (\<lambda>x. x\<lparr>Span := (Span x)\<lparr>TraceID_pb := traceID'\<rparr>\<rparr>) s
                   else s)
                else s0);
          s2 = (if e2 = None then
                  (if InferredSpansEnabled s1
                   then inferred (\<lambda>x. x\<lparr>Span := (Span x)\<lparr>ParentID_pb := parentID'\<rparr>\<rparr>) s1
                   else info (\<lambda>i. i\<lparr>parentID := parentID'\<rparr>) s1)
                else s1);
          s3 = (if e3 = None then
                  (let s = info (\<lambda>i. i\<lparr>samplingPriority := Some samplingPriority'\<rparr>) s2 in
                   if InferredSpansEnabled s
                   then inferred (\<lambda>x. x\<lparr>SamplingPriority := Some samplingPriority'\<rparr>) s
                   else s)
                else s2)
      in s3)"

text \<open>
  The branch for the headers of a direct invocation: each field is assigned the value
  \<open>ParseUint\<close> returns, whatever its error; the errors are only logged.
\<close>

definition applyInvokeEventHeaders :: "LambdaInvokeEventHeaders \<Rightarrow> state \<Rightarrow> state" where
  "applyInvokeEventHeaders invokeEventHeaders s0 =
     (let (v1, e1) = ParseUint (TraceID_hdr invokeEventHeaders) 0 64;
          s1 = info (\<lambda>i. i\<lparr>traceID := v1\<rparr>) s0;
          (v2, e2) = ParseUint (ParentID_hdr invokeEventHeaders) 0 64;
          s2 = info (\<lambda>i. i\<lparr>parentID := v2\<rparr>) s1
      in s2)"

definition startExecutionSpan ::
  "headerKeys \<Rightarrow> Time \<Rightarrow> string \<Rightarrow> LambdaInvokeEventHeaders \<Rightarrow> state \<Rightarrow> state" where
  "startExecutionSpan K startTime' rawPayload invokeEventHeaders s0 =
     (let s1 = info (\<lambda>i. i\<lparr>startTime := startTime'\<rparr>) s0;
          (r1, s2) = Uint64 s1;
          s3 = info (\<lambda>i. i\<lparr>traceID := r1\<rparr>) s2;
          (r2, s4) = Uint64 s3;
          s5 = info (\<lambda>i. i\<lparr>spanID := r2\<rparr>) s4;
          s6 = info (\<lambda>i. i\<lparr>parentID := 0\<rparr>) s5;
          payload = convertRawPayload rawPayload;
          s7 = info (\<lambda>i. i\<lparr>requestPayload := rawPayload\<rparr>) s6;
          s8 = (if InferredSpansEnabled s7
                then info (\<lambda>i. i\<lparr>traceID := TraceID_pb (Span (inferredSpan s7)),
                                   parentID := SpanID_pb (Span (inferredSpan s7))\<rparr>) s7
                else s7)
      in if Headers payload \<noteq> None then applyPayloadHeaders K payload s8
         else if TraceID_hdr invokeEventHeaders \<noteq> [] then
           applyInvokeEventHeaders invokeEventHeaders s8
         else s8)"

subsection \<open>\<open>endExecutionSpan\<close>\<close>

text \<open>
  \<open>int32(priority)\<close> keeps the low 32 bits of the unsigned 64-bit priority. The
  response payload is a byte slice, converted to a string as it is.
\<close>

definition endExecutionSpan ::
  "hostEnv \<Rightarrow> string \<Rightarrow> Time \<Rightarrow> bool \<Rightarrow> string \<Rightarrow> state \<Rightarrow> state" where
  "endExecutionSpan env requestID endTime isError responsePayload s =
     (let cur = currentExecutionInfo s;
          duration = UnixNano endTime - UnixNano (startTime cur);
          executionSpan0 =
            \<lparr>Service = ''aws.lambda'',
             Name = ''aws.lambda'',
             Resource = Getenv env functionNameEnvVar,
             Type = ''serverless'',
             TraceID_pb = traceID cur,
             SpanID_pb = spanID cur,
             ParentID_pb = parentID cur,
             Start = UnixNano (startTime cur),
             Duration = duration,
             Error = 0,
             Meta = [''request_id'' \<mapsto> requestID]\<rparr>;
          captureLambdaPayloadEnabled = GetBool env ''capture_lambda_payload'';
          executionSpan1 =
            (if captureLambdaPayloadEnabled
             then executionSpan0\<lparr>Meta := (Meta executionSpan0)
                    (''function.request'' \<mapsto> requestPayload cur,
                     ''function.response'' \<mapsto> responsePayload)\<rparr>
             else executionSpan0);
          executionSpan = (if isError then executionSpan1\<lparr>Error := 1\<rparr> else executionSpan1);
          traceChunk0 = \<lparr>Priority = 0, Spans = [executionSpan]\<rparr>;
          traceChunk =
            (case samplingPriority cur of
               Some priority \<Rightarrow> traceChunk0\<lparr>Priority := ucast priority\<rparr>
             | None \<Rightarrow> traceChunk0);
          tracerPayload = \<lparr>Chunks = [traceChunk]\<rparr>
      in processTrace \<lparr>TracerPayload = tracerPayload\<rparr> s)"

subsection \<open>Accessors\<close>

definition TraceID :: "state \<Rightarrow> uint64" where
  "TraceID s = traceID (currentExecutionInfo s)"

definition SpanID :: "state \<Rightarrow> uint64" where
  "SpanID s = spanID (currentExecutionInfo s)"

text \<open>
  \<open>endExecutionSpan\<close> hands one payload, of one chunk, of one span to the callback.
  The three functions below read the last call of the callback.
\<close>

definition emittedPayload :: "state \<Rightarrow> api_Payload" where
  "emittedPayload s = last (processed s)"

definition emittedChunk :: "state \<Rightarrow> pb_TraceChunk" where
  "emittedChunk s = hd (Chunks (TracerPayload (emittedPayload s)))"

definition emittedSpan :: "state \<Rightarrow> pb_Span" where
  "emittedSpan s = hd (Spans (emittedChunk s))"

section \<open>The program: \<open>lifecycle.go\<close>\<close>

text \<open>
  The start and end details and the execution context are declared in other files. The
  details are records of the fields the hooks read; the spec lists the headers of a
  direct invocation and the response payload among them, and the hooks pass them on
  (in the given \<open>lifecycle.go\<close> the two calls are still written without these last
  arguments). The execution context is only passed through to the inferred-span
  package; its type is the parameter \<open>'c\<close>.
\<close>

record InvocationStartDetails =
  StartTime :: Time
  InvokeEventRawPayload :: string
  InvokeEventHeaders :: LambdaInvokeEventHeaders

record InvocationEndDetails =
  EndTime :: Time
  IsError :: bool
  RequestID :: string
  ResponsePayload :: string

text \<open>
  \<open>ProcessTrace\<close> and \<open>Demux\<close> are the two outputs, kept in the state as the lists
  of calls. \<open>DetectLambdaLibrary\<close> is a function without arguments.
\<close>

record 'c LifecycleProcessor =
  ExtraTags :: "string list"
  DetectLambdaLibrary :: "unit \<Rightarrow> bool"
  ExecutionContext :: 'c

text \<open>
  The inferred-span package is an external collaborator, taken as a parameter:
  \<open>CreateInferredSpan\<close> changes the inferred span; \<open>CompleteInferredSpan\<close> changes
  it and hands payloads of its own to the callback. Being another package, it cannot
  reach the unexported \<open>currentExecutionInfo\<close>.
\<close>

record 'c inferredSpanPkg =
  CreateInferredSpan :: "string \<Rightarrow> 'c \<Rightarrow> InferredSpan \<Rightarrow> InferredSpan"
  CompleteInferredSpan ::
    "Time \<Rightarrow> bool \<Rightarrow> string \<Rightarrow> InferredSpan \<Rightarrow> InferredSpan \<times> api_Payload list"

text \<open>
  \<open>strings.ToLower\<close> on the bytes of ASCII letters. On other text Go maps whole code
  points, but no code point outside ASCII has a lower case among the letters of
  \<open>true\<close>, so the comparisons below come out the same.
\<close>

definition ToLower :: "string \<Rightarrow> string" where
  "ToLower s = map (\<lambda>c. if 65 \<le> byte c \<and> byte c \<le> 90 then char_of (byte c + 32) else c) s"

text \<open>The condition both hooks test before they call the inferred-span package.\<close>

definition tracingManagedServices :: "hostEnv \<Rightarrow> bool" where
  "tracingManagedServices env =
     (ToLower (Getenv env ''DD_TRACE_ENABLED'') = ''true''
      \<and> ToLower (Getenv env ''DD_TRACE_MANAGED_SERVICES'') = ''true'')"

definition SendErrorsEnhancedMetric :: "string list \<Rightarrow> Time \<Rightarrow> state \<Rightarrow> state" where
  "SendErrorsEnhancedMetric tags t s = s\<lparr>errorsMetrics := errorsMetrics s @ [(tags, t)]\<rparr>"

definition OnInvokeStart ::
  "headerKeys \<Rightarrow> hostEnv \<Rightarrow> 'c inferredSpanPkg \<Rightarrow> 'c LifecycleProcessor
     \<Rightarrow> InvocationStartDetails \<Rightarrow> 'c \<Rightarrow> state \<Rightarrow> state" where
  "OnInvokeStart K env pkg lp startDetails ctx s0 =
     (let s1 = (if \<not> DetectLambdaLibrary lp ()
                then startExecutionSpan K (StartTime startDetails)
                       (InvokeEventRawPayload startDetails) (InvokeEventHeaders startDetails) s0
                else s0)
      in if tracingManagedServices env
         then inferred (CreateInferredSpan pkg (InvokeEventRawPayload startDetails)
                          (ExecutionContext lp)) s1
         else s1)"

definition OnInvokeEnd ::
  "hostEnv \<Rightarrow> 'c inferredSpanPkg \<Rightarrow> 'c LifecycleProcessor \<Rightarrow> InvocationEndDetails
     \<Rightarrow> state \<Rightarrow> state" where
  "OnInvokeEnd env pkg lp endDetails s0 =
     (let s1 = (if \<not> DetectLambdaLibrary lp ()
                then endExecutionSpan env (RequestID endDetails) (EndTime endDetails)
                       (IsError endDetails) (ResponsePayload endDetails) s0
                else s0);
          s2 = (if IsError endDetails
                then SendErrorsEnhancedMetric (ExtraTags lp) (EndTime endDetails) s1
                else s1)
      in if tracingManagedServices env
         then (let (x, ps) = CompleteInferredSpan pkg (EndTime endDetails) (IsError endDetails)
                               (RequestID endDetails) (inferredSpan s2)
               in foldl (\<lambda>s p. processTrace p s) (s2\<lparr>inferredSpan := x\<rparr>) ps)
         else s2)"

section \<open>Example inputs\<close>

definition noInfo :: executionStartInfo where
  "noInfo =
     \<lparr>startTime = 0, traceID = 0, spanID = 0, parentID = 0,
      samplingPriority = None, requestPayload = []\<rparr>"

definition noSpan :: pb_Span where
  "noSpan =
     \<lparr>Service = [], Name = [], Resource = [], Type = [], TraceID_pb = 0, SpanID_pb = 0,
      ParentID_pb = 0, Start = 0, Duration = 0, Error = 0, Meta = Map.empty\<rparr>"

text \<open>A fresh process: nothing recorded, inferred spans disabled, the generator about
  to return 1000, 1001, and so on.\<close>

definition freshState :: state where
  "freshState =
     \<lparr>currentExecutionInfo = noInfo, InferredSpansEnabled = False,
      inferredSpan = \<lparr>Span = noSpan, SamplingPriority = None\<rparr>,
      Random = (\<lambda>n. of_nat n + 1000), processed = [], errorsMetrics = []\<rparr>"

definition noHeaders :: LambdaInvokeEventHeaders where
  "noHeaders = \<lparr>TraceID_hdr = [], ParentID_hdr = []\<rparr>"

definition plainEnv :: hostEnv where
  "plainEnv = \<lparr>Getenv = (\<lambda>k. []), GetBool = (\<lambda>k. False)\<rparr>"

text \<open>The payload of the spec's scenario.\<close>

definition scenarioPayload :: string where
  "scenarioPayload = ''noise{\"headers\":{\"x-datadog-trace-id\":\"42\"}}tail''"

definition badParentPayload :: string where
  "badParentPayload =
     ''{\"headers\":{\"x-datadog-trace-id\":\"42\",\"x-datadog-parent-id\":\"p7\"}}''"

definition priorityPayload :: string where
  "priorityPayload = ''{\"headers\":{\"x-datadog-sampling-priority\":\"2\"}}''"

definition negativePriorityPayload :: string where
  "negativePriorityPayload = ''{\"headers\":{\"x-datadog-sampling-priority\":\"-1\"}}''"

text \<open>
  The record \<open>startExecutionSpan\<close> has built when it reaches the header branches:
  the defaults, or the identifiers of the inferred span when inferred spans are
  enabled.
\<close>

definition baselineInfo :: "Time \<Rightarrow> string \<Rightarrow> state \<Rightarrow> executionStartInfo" where
  "baselineInfo t raw s =
     \<lparr>startTime = t,
      traceID = (if InferredSpansEnabled s then TraceID_pb (Span (inferredSpan s)) else Random s 0),
      spanID = Random s (Suc 0),
      parentID = (if InferredSpansEnabled s then SpanID_pb (Span (inferredSpan s)) else 0),
      samplingPriority = samplingPriority (currentExecutionInfo s),
      requestPayload = raw\<rparr>"

text \<open>
  A processor whose library detection answers true, an inferred-span package that does
  nothing, and the details of an invocation that ends in an error.
\<close>

definition libraryProcessor :: "unit LifecycleProcessor" where
  "libraryProcessor =
     \<lparr>ExtraTags = [''functionname:f''], DetectLambdaLibrary = (\<lambda>u. True),
      ExecutionContext = ()\<rparr>"

definition idlePkg :: "unit inferredSpanPkg" where
  "idlePkg =
     \<lparr>CreateInferredSpan = (\<lambda>raw c x. x), CompleteInferredSpan = (\<lambda>t e r x. (x, []))\<rparr>"

definition scenarioStart :: InvocationStartDetails where
  "scenarioStart =
     \<lparr>StartTime = 10, InvokeEventRawPayload = scenarioPayload, InvokeEventHeaders = noHeaders\<rparr>"

definition failedEnd :: InvocationEndDetails where
  "failedEnd = \<lparr>EndTime = 20, IsError = True, RequestID = ''request-1'', ResponsePayload = []\<rparr>"

section \<open>Basic facts\<close>

lemma info_simps [simp]:
  "currentExecutionInfo (info f s) = f (currentExecutionInfo s)"
  "InferredSpansEnabled (info f s) = InferredSpansEnabled s"
  "inferredSpan (info f s) = inferredSpan s"
  "Random (info f s) = Random s"
  "processed (info f s) = processed s"
  "errorsMetrics (info f s) = errorsMetrics s"
  by (simp_all add: info_def)

lemma inferred_simps [simp]:
  "currentExecutionInfo (inferred f s) = currentExecutionInfo s"
  "InferredSpansEnabled (inferred f s) = InferredSpansEnabled s"
  "inferredSpan (inferred f s) = f (inferredSpan s)"
  "Random (inferred f s) = Random s"
  "processed (inferred f s) = processed s"
  "errorsMetrics (inferred f s) = errorsMetrics s"
  by (simp_all add: inferred_def)

lemma Uint64_simps [simp]:
  "fst (Uint64 s) = Random s 0"
  "currentExecutionInfo (snd (Uint64 s)) = currentExecutionInfo s"
  "InferredSpansEnabled (snd (Uint64 s)) = InferredSpansEnabled s"
  "inferredSpan (snd (Uint64 s)) = inferredSpan s"
  "Random (snd (Uint64 s)) n = Random s (Suc n)"
  "processed (snd (Uint64 s)) = processed s"
  "errorsMetrics (snd (Uint64 s)) = errorsMetrics s"
  by (simp_all add: Uint64_def)

lemma applyPayloadHeaders_info:
  "currentExecutionInfo (applyPayloadHeaders K p s) =
     (currentExecutionInfo s)
       \<lparr>traceID := (let r = ParseUint (lookup (Headers p) (TraceIDHeader K)) 0 64 in
                    if snd r = None then fst r else traceID (currentExecutionInfo s)),
        parentID := (let r = ParseUint (lookup (Headers p) (ParentIDHeader K)) 0 64 in
                     if snd r = None \<and> \<not> InferredSpansEnabled s then fst r
                     else parentID (currentExecutionInfo s)),
        samplingPriority :=
          (let r = ParseUint (lookup (Headers p) (SamplingPriorityHeader K)) 0 64 in
           if snd r = None then Some (fst r)
           else samplingPriority (currentExecutionInfo s))\<rparr>"
  by (simp add: applyPayloadHeaders_def Let_def split_beta)

lemma applyInvokeEventHeaders_info:
  "currentExecutionInfo (applyInvokeEventHeaders h s) =
     (currentExecutionInfo s)
       \<lparr>traceID := fst (ParseUint (TraceID_hdr h) 0 64),
        parentID := fst (ParseUint (ParentID_hdr h) 0 64)\<rparr>"
  by (simp add: applyInvokeEventHeaders_def Let_def split_beta)

text \<open>The whole of \<open>currentExecutionInfo\<close> after \<open>startExecutionSpan\<close>.\<close>

lemma start_info:
  "currentExecutionInfo (startExecutionSpan K t raw h s) =
     (let b = baselineInfo t raw s; p = convertRawPayload raw in
      if Headers p \<noteq> None then
        b\<lparr>traceID := (let r = ParseUint (lookup (Headers p) (TraceIDHeader K)) 0 64 in
                      if snd r = None then fst r else traceID b),
          parentID := (let r = ParseUint (lookup (Headers p) (ParentIDHeader K)) 0 64 in
                       if snd r = None \<and> \<not> InferredSpansEnabled s then fst r else parentID b),
          samplingPriority :=
            (let r = ParseUint (lookup (Headers p) (SamplingPriorityHeader K)) 0 64 in
             if snd r = None then Some (fst r) else samplingPriority b)\<rparr>
      else if TraceID_hdr h \<noteq> [] then
        b\<lparr>traceID := fst (ParseUint (TraceID_hdr h) 0 64),
          parentID := fst (ParseUint (ParentID_hdr h) 0 64)\<rparr>
      else b)"
  by (simp add: startExecutionSpan_def Let_def applyPayloadHeaders_info
      applyInvokeEventHeaders_info baselineInfo_def split_beta)

lemma end_frame:
  "currentExecutionInfo (endExecutionSpan env rid e isErr resp s) = currentExecutionInfo s"
  "errorsMetrics (endExecutionSpan env rid e isErr resp s) = errorsMetrics s"
  "inferredSpan (endExecutionSpan env rid e isErr resp s) = inferredSpan s"
  by (simp_all add: endExecutionSpan_def processTrace_def Let_def)

text \<open>The span, the chunk and the payload \<open>endExecutionSpan\<close> hands over.\<close>

lemma end_emittedSpan:
  "emittedSpan (endExecutionSpan env rid e isErr resp s) =
     \<lparr>Service = ''aws.lambda'', Name = ''aws.lambda'',
      Resource = Getenv env functionNameEnvVar, Type = ''serverless'',
      TraceID_pb = traceID (currentExecutionInfo s),
      SpanID_pb = spanID (currentExecutionInfo s),
      ParentID_pb = parentID (currentExecutionInfo s),
      Start = UnixNano (startTime (currentExecutionInfo s)),
      Duration = UnixNano e - UnixNano (startTime (currentExecutionInfo s)),
      Error = (if isErr then 1 else 0),
      Meta = (if GetBool env ''capture_lambda_payload''
              then [''request_id'' \<mapsto> rid,
                    ''function.request'' \<mapsto> requestPayload (currentExecutionInfo s),
                    ''function.response'' \<mapsto> resp]
              else [''request_id'' \<mapsto> rid])\<rparr>"
  by (simp add: endExecutionSpan_def processTrace_def Let_def emittedSpan_def emittedChunk_def
      emittedPayload_def split: option.splits)

lemma end_emittedChunk:
  "Priority (emittedChunk (endExecutionSpan env rid e isErr resp s)) =
     (case samplingPriority (currentExecutionInfo s) of Some p \<Rightarrow> ucast p | None \<Rightarrow> 0)"
  "Spans (emittedChunk (endExecutionSpan env rid e isErr resp s)) =
     [emittedSpan (endExecutionSpan env rid e isErr resp s)]"
  by (simp_all add: endExecutionSpan_def processTrace_def Let_def emittedSpan_def
      emittedChunk_def emittedPayload_def split: option.splits)

lemma end_processed:
  "processed (endExecutionSpan env rid e isErr resp s) =
     processed s @ [emittedPayload (endExecutionSpan env rid e isErr resp s)]"
  "Chunks (TracerPayload (emittedPayload (endExecutionSpan env rid e isErr resp s))) =
     [emittedChunk (endExecutionSpan env rid e isErr resp s)]"
  by (simp_all add: endExecutionSpan_def processTrace_def Let_def emittedSpan_def
      emittedChunk_def emittedPayload_def split: option.splits)

lemma foldl_processTrace:
  "processed (foldl (\<lambda>s p. processTrace p s) s ps) = processed s @ ps"
  "currentExecutionInfo (foldl (\<lambda>s p. processTrace p s) s ps) = currentExecutionInfo s"
  "errorsMetrics (foldl (\<lambda>s p. processTrace p s) s ps) = errorsMetrics s"
  by (induction ps arbitrary: s) (simp_all add: processTrace_def)

text \<open>Values of the library functions at the example inputs.\<close>

lemma ParseUint_values:
  "ParseUint [] 0 64 = (0, Some ErrSyntax)"
  "ParseUint ''2'' 0 64 = (2, None)"
  "ParseUint ''42'' 0 64 = (42, None)"
  "ParseUint ''abc'' 0 64 = (0, Some ErrSyntax)"
  "ParseUint ''7'' 0 64 = (7, None)"
  "ParseUint ''-1'' 0 64 = (0, Some ErrSyntax)"
  "ParseUint ''p7'' 0 64 = (0, Some ErrSyntax)"
  by code_simp+

lemma ping_no_headers: "Headers (convertRawPayload ''ping'') = None"
  by code_simp

lemma priorityPayload_headers:
  "Headers (convertRawPayload priorityPayload) \<noteq> None"
  "lookup (Headers (convertRawPayload priorityPayload)) (TraceIDHeader datadogHeaders) = []"
  "lookup (Headers (convertRawPayload priorityPayload)) (ParentIDHeader datadogHeaders) = []"
  "lookup (Headers (convertRawPayload priorityPayload)) (SamplingPriorityHeader datadogHeaders)
     = ''2''"
  by code_simp+

lemma scenario_headers:
  "Headers (convertRawPayload scenarioPayload) \<noteq> None"
  "lookup (Headers (convertRawPayload scenarioPayload)) (TraceIDHeader datadogHeaders) = ''42''"
  "lookup (Headers (convertRawPayload scenarioPayload)) (ParentIDHeader datadogHeaders) = []"
  "lookup (Headers (convertRawPayload scenarioPayload)) (SamplingPriorityHeader datadogHeaders)
     = []"
  by code_simp+

lemma badParent_headers:
  "Headers (convertRawPayload badParentPayload) \<noteq> None"
  "lookup (Headers (convertRawPayload badParentPayload)) (TraceIDHeader datadogHeaders) = ''42''"
  "lookup (Headers (convertRawPayload badParentPayload)) (ParentIDHeader datadogHeaders) = ''p7''"
  "lookup (Headers (convertRawPayload badParentPayload)) (SamplingPriorityHeader datadogHeaders)
     = []"
  by code_simp+

lemma negativePriority_headers:
  "Headers (convertRawPayload negativePriorityPayload) \<noteq> None"
  "lookup (Headers (convertRawPayload negativePriorityPayload)) (TraceIDHeader datadogHeaders)
     = []"
  "lookup (Headers (convertRawPayload negativePriorityPayload)) (ParentIDHeader datadogHeaders)
     = []"
  "lookup (Headers (convertRawPayload negativePriorityPayload))
     (SamplingPriorityHeader datadogHeaders) = ''-1''"
  by code_simp+

text \<open>Reading machine integers back as numbers.\<close>

lemma sint_ucast_small:
  fixes v :: "64 word"
  assumes "v < 2 ^ 31"
  shows "sint (ucast v :: 32 word) = uint v"
proof -
  have u: "uint v < 2 ^ 31" using assms by (simp add: word_less_def)
  have l: "- (2 ^ 31) \<le> uint v" by (rule order_trans [of _ 0]) simp_all
  have "uint (ucast v :: 32 word) = uint v"
    using u by (simp add: unsigned_ucast_eq take_bit_int_eq_self)
  moreover have "sint (ucast v :: 32 word) = signed_take_bit 31 (uint (ucast v :: 32 word))"
    by (simp add: sint_uint)
  moreover have "signed_take_bit 31 (uint v) = uint v"
    using l u by (rule signed_take_bit_int_eq_self)
  ultimately show ?thesis by simp
qed

lemma sint_diff_exact:
  fixes a b :: int
  assumes "- (2 ^ 63) \<le> a - b" "a - b < 2 ^ 63"
  shows "sint ((word_of_int a :: 64 word) - word_of_int b) = a - b"
proof -
  have "(word_of_int a :: 64 word) - word_of_int b = word_of_int (a - b)" by simp
  then show ?thesis
    using assms by (simp add: sint_sbintrunc' signed_take_bit_int_eq_self del: of_int_diff)
qed

lemma sint_of_int_exact:
  fixes a :: int
  assumes "- (2 ^ 63) \<le> a" "a < 2 ^ 63"
  shows "sint (word_of_int a :: 64 word) = a"
  using assms by (simp add: sint_sbintrunc' signed_take_bit_int_eq_self)

section \<open>Claims\<close>

text \<open>
  C1. The claim: \<open>startExecutionSpan\<close> overwrites every field of
  \<open>currentExecutionInfo\<close>, so that a sampling priority resolved in an earlier
  invocation is absent after a start that resolves none. The code assigns
  \<open>samplingPriority\<close> only when a sampling-priority header parses and never clears
  it. Below, a first invocation carries the priority 2; the second invocation, whose
  payload has no headers at all, still holds the priority 2 after its start, and its
  trace chunk is emitted with it.
\<close>

theorem C1_sampling_priority_survives_next_start:
  "samplingPriority (currentExecutionInfo
     (startExecutionSpan datadogHeaders 30 ''ping'' noHeaders
        (endExecutionSpan plainEnv ''request-1'' 20 False []
           (startExecutionSpan datadogHeaders 10 priorityPayload noHeaders freshState))))
     = Some 2
   \<and> Priority (emittedChunk
       (endExecutionSpan plainEnv ''request-2'' 40 False []
          (startExecutionSpan datadogHeaders 30 ''ping'' noHeaders
             (endExecutionSpan plainEnv ''request-1'' 20 False []
                (startExecutionSpan datadogHeaders 10 priorityPayload noHeaders freshState)))))
     = 2"
  by (simp add: start_info end_frame end_emittedChunk ping_no_headers priorityPayload_headers
      ParseUint_values Let_def noHeaders_def baselineInfo_def)




text \<open>
  The identifier that fails to parse is assigned as well: it receives the value
  \<open>ParseUint\<close> returns with its error, 0 for a syntax error. The embedded-header
  branch keeps the previous value there.
\<close>

lemma direct_headers_failed_parse_is_assigned:
  "snd (ParseUint ''abc'' 0 64) \<noteq> None
   \<and> Random freshState 0 = 1000
   \<and> traceID (currentExecutionInfo
        (startExecutionSpan datadogHeaders 10 ''ping''
           \<lparr>TraceID_hdr = ''abc'', ParentID_hdr = ''7''\<rparr> freshState)) = 0"
  by (simp add: start_info ping_no_headers ParseUint_values Let_def freshState_def)

text \<open>
  C3. For every raw payload whose brace-delimited substring decodes to a header mapping
  with a trace-ID header that parses as an unsigned 64-bit number, and with inferred
  spans disabled, \<open>TraceID()\<close> after \<open>startExecutionSpan\<close> is the parsed value. In
  particular the payload \<open>noise{"headers":{"x-datadog-trace-id":"42"}}tail\<close> with
  empty direct headers resolves the trace ID 42 and the parent ID 0.
\<close>

theorem C3_embedded_trace_id:
  "(Headers (convertRawPayload raw) \<noteq> None
      \<and> ParseUint (lookup (Headers (convertRawPayload raw)) (TraceIDHeader K)) 0 64 = (v, None)
      \<and> \<not> InferredSpansEnabled s
    \<longrightarrow> TraceID (startExecutionSpan K t raw h s) = v)
   \<and> (\<not> InferredSpansEnabled s
    \<longrightarrow> TraceID (startExecutionSpan datadogHeaders t scenarioPayload noHeaders s) = 42
      \<and> parentID (currentExecutionInfo
            (startExecutionSpan datadogHeaders t scenarioPayload noHeaders s)) = 0)"
  by (simp add: TraceID_def start_info Let_def scenario_headers ParseUint_values baselineInfo_def)

theorem C3_embedded_trace_id_witness:
  "Headers (convertRawPayload scenarioPayload) \<noteq> None
   \<and> ParseUint (lookup (Headers (convertRawPayload scenarioPayload))
                  (TraceIDHeader datadogHeaders)) 0 64 = (42, None)
   \<and> \<not> InferredSpansEnabled freshState
   \<and> TraceID (startExecutionSpan datadogHeaders 10 scenarioPayload noHeaders freshState) = 42
   \<and> parentID (currentExecutionInfo
            (startExecutionSpan datadogHeaders 10 scenarioPayload noHeaders freshState)) = 0"
  using C3_embedded_trace_id [of scenarioPayload datadogHeaders 42 freshState 10 noHeaders]
  by (simp add: scenario_headers ParseUint_values freshState_def)

text \<open>
  C4. With headers found in the payload and inferred spans disabled, each of the three
  header fields is decided by the parse of its own header alone: the trace ID is the
  parsed value or else the random default, the parent ID is the parsed value or else
  zero, and a sampling priority that parses is recorded, whatever happens to the other
  two. In particular a trace-ID header that parses with a parent-ID header that does not
  gives the parsed trace ID and the parent ID zero.
\<close>

theorem C4_header_fields_independent:
  assumes "Headers (convertRawPayload raw) \<noteq> None" and "\<not> InferredSpansEnabled s"
  shows "let p = convertRawPayload raw;
             i = currentExecutionInfo (startExecutionSpan K t raw h s);
             r1 = ParseUint (lookup (Headers p) (TraceIDHeader K)) 0 64;
             r2 = ParseUint (lookup (Headers p) (ParentIDHeader K)) 0 64;
             r3 = ParseUint (lookup (Headers p) (SamplingPriorityHeader K)) 0 64
         in traceID i = (if snd r1 = None then fst r1 else Random s 0)
          \<and> parentID i = (if snd r2 = None then fst r2 else 0)
          \<and> (snd r3 = None \<longrightarrow> samplingPriority i = Some (fst r3))
          \<and> (snd r1 = None \<and> snd r2 \<noteq> None \<longrightarrow> traceID i = fst r1 \<and> parentID i = 0)"
  using assms by (simp add: start_info Let_def baselineInfo_def)

theorem C4_header_fields_independent_witness:
  "Headers (convertRawPayload badParentPayload) \<noteq> None
   \<and> \<not> InferredSpansEnabled freshState
   \<and> snd (ParseUint (lookup (Headers (convertRawPayload badParentPayload))
             (TraceIDHeader datadogHeaders)) 0 64) = None
   \<and> snd (ParseUint (lookup (Headers (convertRawPayload badParentPayload))
             (ParentIDHeader datadogHeaders)) 0 64) \<noteq> None
   \<and> traceID (currentExecutionInfo
        (startExecutionSpan datadogHeaders 10 badParentPayload noHeaders freshState)) = 42
   \<and> parentID (currentExecutionInfo
        (startExecutionSpan datadogHeaders 10 badParentPayload noHeaders freshState)) = 0"
  using C4_header_fields_independent [of badParentPayload freshState datadogHeaders 10 noHeaders]
  by (simp add: badParent_headers ParseUint_values freshState_def Let_def)

text \<open>
  C5, as stated, fails: the claim takes the sampling priority for a signed integer and
  has a header such as \<open>-1\<close> recorded and attached to the trace chunk. The header is
  parsed with \<open>ParseUint\<close>, which accepts no sign: nothing is recorded and the chunk
  keeps the priority 0.
\<close>

theorem C5_negative_priority_counterexample:
  "lookup (Headers (convertRawPayload negativePriorityPayload))
       (SamplingPriorityHeader datadogHeaders) = ''-1''
   \<and> samplingPriority (currentExecutionInfo
        (startExecutionSpan datadogHeaders 10 negativePriorityPayload noHeaders freshState)) = None
   \<and> sint (Priority (emittedChunk
        (endExecutionSpan plainEnv ''request-1'' 20 False []
           (startExecutionSpan datadogHeaders 10 negativePriorityPayload noHeaders freshState))))
       \<noteq> - 1"
  by (simp add: start_info end_emittedChunk negativePriority_headers ParseUint_values Let_def
      baselineInfo_def freshState_def noInfo_def)

text \<open>
  C5, amended. The sampling priority is an optional unsigned 64-bit integer: for every
  payload whose sampling-priority header parses with \<open>ParseUint\<close> (no sign, base
  by prefix), \<open>startExecutionSpan\<close> records the value, and \<open>endExecutionSpan\<close>
  attaches its low 32 bits as the priority of the trace chunk, the value itself when it
  is below \<open>2^31\<close>.
\<close>

theorem C5_unsigned_priority_recorded:
  assumes "Headers (convertRawPayload raw) \<noteq> None"
    and "ParseUint (lookup (Headers (convertRawPayload raw)) (SamplingPriorityHeader K)) 0 64
           = (v, None)"
  shows "samplingPriority (currentExecutionInfo (startExecutionSpan K t raw h s)) = Some v
     \<and> Priority (emittedChunk (endExecutionSpan env rid e isErr resp
                   (startExecutionSpan K t raw h s))) = ucast v
     \<and> (v < 2 ^ 31 \<longrightarrow>
          sint (Priority (emittedChunk (endExecutionSpan env rid e isErr resp
                   (startExecutionSpan K t raw h s)))) = uint v)"
  using assms by (simp add: start_info end_emittedChunk Let_def sint_ucast_small)

theorem C5_unsigned_priority_recorded_witness:
  "Headers (convertRawPayload priorityPayload) \<noteq> None
   \<and> ParseUint (lookup (Headers (convertRawPayload priorityPayload))
        (SamplingPriorityHeader datadogHeaders)) 0 64 = (2, None)
   \<and> samplingPriority (currentExecutionInfo
        (startExecutionSpan datadogHeaders 10 priorityPayload noHeaders freshState)) = Some 2
   \<and> sint (Priority (emittedChunk (endExecutionSpan plainEnv ''request-1'' 20 False []
        (startExecutionSpan datadogHeaders 10 priorityPayload noHeaders freshState)))) = 2"
  using C5_unsigned_priority_recorded [of priorityPayload datadogHeaders 2 10 noHeaders
      freshState plainEnv "''request-1''" 20 False "[]"]
  by (simp add: priorityPayload_headers ParseUint_values)

text \<open>
  C6, as stated, fails: the claim has the duration equal to the difference of the two
  timestamps for every pair of them. The duration is the difference of the two
  \<open>UnixNano()\<close> readings in \<open>int64\<close>, which wraps around. A start at
  \<open>-8 * 10^18\<close> ns (the year 1716) and an end at \<open>8 * 10^18\<close> ns (the year 2223)
  are \<open>16 * 10^18\<close> ns apart, and the span gets a negative duration.
\<close>

theorem C6_far_apart_counterexample:
  "startTime (currentExecutionInfo
      (startExecutionSpan datadogHeaders (- 8000000000000000000) ''ping'' noHeaders freshState))
     = - 8000000000000000000
   \<and> sint (Duration (emittedSpan
        (endExecutionSpan plainEnv ''request-1'' 8000000000000000000 False []
           (startExecutionSpan datadogHeaders (- 8000000000000000000) ''ping'' noHeaders
              freshState))))
     = - 2446744073709551616
   \<and> (8000000000000000000 :: int) - (- 8000000000000000000) = 16000000000000000000"
  by (simp add: start_info end_emittedSpan ping_no_headers Let_def noHeaders_def baselineInfo_def
      UnixNano_def)

text \<open>
  C6, amended. For every stored start time and every end time, the \<open>Duration\<close> of
  the span is the 64-bit difference of the two Unix-nanosecond readings and its
  \<open>Start\<close> is the reading of the stored start time; nothing else enters (no clock is
  read). Whenever the difference of the two timestamps fits a signed 64-bit number of
  nanoseconds, which includes equal timestamps and an end before the start, the duration
  is exactly the end time minus the start time; whenever the start time fits, \<open>Start\<close>
  is exactly the start time.
\<close>

theorem C6_duration_is_difference:
  "let st = startTime (currentExecutionInfo s);
       x = emittedSpan (endExecutionSpan env rid endTime isErr resp s)
   in Duration x = UnixNano endTime - UnixNano st
    \<and> Start x = UnixNano st
    \<and> (- (2 ^ 63) \<le> endTime - st \<and> endTime - st < 2 ^ 63 \<longrightarrow> sint (Duration x) = endTime - st)
    \<and> (- (2 ^ 63) \<le> st \<and> st < 2 ^ 63 \<longrightarrow> sint (Start x) = st)"
  by (simp add: end_emittedSpan Let_def UnixNano_def sint_diff_exact sint_of_int_exact
      del: of_int_diff)

theorem C6_duration_is_difference_witness:
  "sint (Duration (emittedSpan (endExecutionSpan plainEnv ''request-1'' 3 False []
      (startExecutionSpan datadogHeaders 10 ''ping'' noHeaders freshState)))) = - 7
   \<and> sint (Duration (emittedSpan (endExecutionSpan plainEnv ''request-1'' 10 False []
      (startExecutionSpan datadogHeaders 10 ''ping'' noHeaders freshState)))) = 0
   \<and> sint (Start (emittedSpan (endExecutionSpan plainEnv ''request-1'' 3 False []
      (startExecutionSpan datadogHeaders 10 ''ping'' noHeaders freshState)))) = 10"
  using C6_duration_is_difference
      [of "startExecutionSpan datadogHeaders 10 ''ping'' noHeaders freshState"
        plainEnv "''request-1''" 3 False "[]"]
    C6_duration_is_difference
      [of "startExecutionSpan datadogHeaders 10 ''ping'' noHeaders freshState"
        plainEnv "''request-1''" 10 False "[]"]
  by (simp add: start_info ping_no_headers Let_def noHeaders_def baselineInfo_def UnixNano_def)

text \<open>
  C7. The error indicator of the emitted span is 1 exactly when \<open>isError\<close> is true,
  and 0 when it is false.
\<close>

theorem C7_error_indicator:
  "(Error (emittedSpan (endExecutionSpan env rid e isError resp s)) = 1) = isError
   \<and> Error (emittedSpan (endExecutionSpan env rid e isError resp s)) = (if isError then 1 else 0)"
  by (simp add: end_emittedSpan)

text \<open>
  C8. With the capture-payload setting disabled the metadata of the emitted span is the
  request ID alone: the keys \<open>function.request\<close> and \<open>function.response\<close> are
  absent, whatever the stored request payload and the response payload are. An
  environment that differs only in having the setting enabled gives the same span with
  the two entries added, and the same chunk priority.
\<close>

theorem C8_capture_disabled:
  assumes "\<not> GetBool env ''capture_lambda_payload''"
  shows "Meta (emittedSpan (endExecutionSpan env rid e isErr resp s)) ''function.request'' = None
     \<and> Meta (emittedSpan (endExecutionSpan env rid e isErr resp s)) ''function.response'' = None
     \<and> Meta (emittedSpan (endExecutionSpan env rid e isErr resp s)) = [''request_id'' \<mapsto> rid]
     \<and> (\<forall>env'. Getenv env' = Getenv env \<and> GetBool env' ''capture_lambda_payload'' \<longrightarrow>
           emittedSpan (endExecutionSpan env' rid e isErr resp s) =
             (emittedSpan (endExecutionSpan env rid e isErr resp s))
               \<lparr>Meta := [''request_id'' \<mapsto> rid,
                         ''function.request'' \<mapsto> requestPayload (currentExecutionInfo s),
                         ''function.response'' \<mapsto> resp]\<rparr>
         \<and> Priority (emittedChunk (endExecutionSpan env' rid e isErr resp s)) =
             Priority (emittedChunk (endExecutionSpan env rid e isErr resp s)))"
  using assms by (simp add: end_emittedSpan end_emittedChunk)

theorem C8_capture_disabled_witness:
  "\<not> GetBool plainEnv ''capture_lambda_payload''
   \<and> Meta (emittedSpan (endExecutionSpan plainEnv ''request-1'' 20 False ''response''
        (startExecutionSpan datadogHeaders 10 scenarioPayload noHeaders freshState)))
        ''function.request'' = None
   \<and> Meta (emittedSpan (endExecutionSpan plainEnv ''request-1'' 20 False ''response''
        (startExecutionSpan datadogHeaders 10 scenarioPayload noHeaders freshState)))
        ''function.response'' = None
   \<and> Meta (emittedSpan (endExecutionSpan (plainEnv\<lparr>GetBool := (\<lambda>k. True)\<rparr>) ''request-1'' 20
        False ''response''
        (startExecutionSpan datadogHeaders 10 scenarioPayload noHeaders freshState)))
        ''function.response'' = Some ''response''"
  using C8_capture_disabled [of plainEnv "''request-1''" 20 False "''response''"
      "startExecutionSpan datadogHeaders 10 scenarioPayload noHeaders freshState"]
  by (simp add: plainEnv_def end_emittedSpan)

text \<open>
  C9. When library detection answers true, \<open>OnInvokeStart\<close> and \<open>OnInvokeEnd\<close>
  leave \<open>currentExecutionInfo\<close> as it is and hand no execution span to the trace
  callback: \<open>OnInvokeStart\<close> makes no call, and the only calls of \<open>OnInvokeEnd\<close>
  are those the inferred-span package makes for its own span when both tracing flags are
  set. An invocation that ends in an error still sends the enhanced error metric, with
  the extra tags and the end time.
\<close>

theorem C9_library_present:
  assumes "DetectLambdaLibrary lp ()"
  shows "currentExecutionInfo (OnInvokeStart K env pkg lp startDetails ctx s)
           = currentExecutionInfo s
     \<and> processed (OnInvokeStart K env pkg lp startDetails ctx s) = processed s
     \<and> currentExecutionInfo (OnInvokeEnd env pkg lp endDetails s) = currentExecutionInfo s
     \<and> processed (OnInvokeEnd env pkg lp endDetails s) =
         processed s @ (if tracingManagedServices env
                        then snd (CompleteInferredSpan pkg (EndTime endDetails)
                                    (IsError endDetails) (RequestID endDetails) (inferredSpan s))
                        else [])
     \<and> (IsError endDetails \<longrightarrow>
           errorsMetrics (OnInvokeEnd env pkg lp endDetails s) =
             errorsMetrics s @ [(ExtraTags lp, EndTime endDetails)])"
  using assms
  by (simp add: OnInvokeStart_def OnInvokeEnd_def Let_def foldl_processTrace
      SendErrorsEnhancedMetric_def split_beta)

theorem C9_library_present_witness:
  "DetectLambdaLibrary libraryProcessor ()
   \<and> IsError failedEnd
   \<and> currentExecutionInfo
        (OnInvokeEnd plainEnv idlePkg libraryProcessor failedEnd
           (OnInvokeStart datadogHeaders plainEnv idlePkg libraryProcessor scenarioStart ()
              freshState)) = noInfo
   \<and> processed
        (OnInvokeEnd plainEnv idlePkg libraryProcessor failedEnd
           (OnInvokeStart datadogHeaders plainEnv idlePkg libraryProcessor scenarioStart ()
              freshState)) = []
   \<and> errorsMetrics
        (OnInvokeEnd plainEnv idlePkg libraryProcessor failedEnd
           (OnInvokeStart datadogHeaders plainEnv idlePkg libraryProcessor scenarioStart ()
              freshState)) = [([''functionname:f''], 20)]"
proof -
  have d: "DetectLambdaLibrary libraryProcessor ()"
    by (simp add: libraryProcessor_def)
  have t: "\<not> tracingManagedServices plainEnv"
    by (simp add: tracingManagedServices_def plainEnv_def ToLower_def)
  have m: "errorsMetrics (OnInvokeStart datadogHeaders plainEnv idlePkg libraryProcessor
             scenarioStart () freshState) = []"
    using d by (simp add: OnInvokeStart_def Let_def freshState_def)
  show ?thesis
    using d t m
      C9_library_present [OF d, of datadogHeaders plainEnv idlePkg scenarioStart "()" freshState
        failedEnd]
      C9_library_present [OF d, of datadogHeaders plainEnv idlePkg scenarioStart "()"
        "OnInvokeStart datadogHeaders plainEnv idlePkg libraryProcessor scenarioStart ()
           freshState" failedEnd]
    by (simp add: failedEnd_def freshState_def libraryProcessor_def)
qed

text \<open>
  C10. For every payload, every direct headers and either setting of inferred spans, the
  span ID after \<open>startExecutionSpan\<close> is the second value drawn from the generator in
  that call (the first is the default trace ID); no branch writes the field again, and
  \<open>endExecutionSpan\<close> leaves it, so \<open>SpanID()\<close> answers that value throughout the
  invocation.
\<close>

theorem C10_span_id_is_random_default:
  "SpanID (startExecutionSpan K t raw h s) = fst (Uint64 (snd (Uint64 s)))
   \<and> SpanID (endExecutionSpan env rid e isErr resp (startExecutionSpan K t raw h s))
       = fst (Uint64 (snd (Uint64 s)))"
  by (simp add: SpanID_def start_info end_frame Let_def baselineInfo_def)

end
